theory Spec2Isabelle
  imports Complex_Main
begin

section \<open>Numbers\<close>

text \<open>
  The sources compute with C++ \<^verbatim>\<open>double\<close> values and with number types built on them.
  Two readings are used below.
  \<^item> Where a function only combines its arguments with arithmetic operators and functions of
    the C++ library (\<^verbatim>\<open>waterThermoState\<close>, whose arguments are the library's scalars that
    carry their derivatives along, \<^verbatim>\<open>equilibriumConstant\<close> and \<^verbatim>\<open>reactionQuotient\<close>), it is
    modelled over an arbitrary type \<open>'a\<close> that has these operators, the library functions
    \<^verbatim>\<open>std::pow\<close> and \<^verbatim>\<open>std::exp\<close> being arguments of the model. No law of arithmetic is
    assumed of them, so what is proved of such a function holds in the arithmetic of the
    program, with its rounding, its infinities and what it makes of a division by zero. A
    sum or a product of the specification is there the one the loop of the source builds,
    term by term from its initial value; that it is the sum or product of exact arithmetic
    is stated for the real numbers.
  \<^item> The numbers of a mineral mechanism are read as real numbers, rounding left out. A
    \<^verbatim>\<open>double\<close> that no real number stands for ends the model with a failure: \<open>NotFinite\<close>
    for an infinity or a NaN, \<open>Underflow\<close> for a result that is not zero and is smaller
    than every normal \<^verbatim>\<open>double\<close>, where IEEE arithmetic yields zero or a subnormal number.
\<close>

section \<open>Thermodynamic state of water: \<^verbatim>\<open>WaterThermoStateUtils.cpp\<close>\<close>

text \<open>
  The Helmholtz free energy of water and its partial derivatives, the argument
  \<^verbatim>\<open>wh\<close> of \<^verbatim>\<open>waterThermoState\<close>. The struct is declared in
  \<^verbatim>\<open>WaterHelmholtzState.hpp\<close>; the fields are those the function reads.
\<close>

record 'a WaterHelmholtzState =
  helmholtz :: 'a
  helmholtzT :: 'a
  helmholtzD :: 'a
  helmholtzTT :: 'a
  helmholtzTD :: 'a
  helmholtzDD :: 'a
  helmholtzTTD :: 'a
  helmholtzTDD :: 'a
  helmholtzDDD :: 'a

text \<open>The result \<^verbatim>\<open>wt\<close>: the fields the function assigns, in the order it assigns them.\<close>

record 'a WaterThermoState =
  temperature :: 'a
  pressure :: 'a
  pressureD :: 'a
  pressureT :: 'a
  pressureDD :: 'a
  pressureTD :: 'a
  pressureTT :: 'a
  density :: 'a
  densityT :: 'a
  densityP :: 'a
  densityTT :: 'a
  densityTP :: 'a
  densityPP :: 'a
  volume :: 'a
  entropy :: 'a
  helmholtz_energy :: 'a
  internal_energy :: 'a
  enthalpy :: 'a
  gibbs :: 'a
  cv :: 'a
  cp :: 'a

text \<open>
  \<^verbatim>\<open>waterThermoState(T, P, D, wh)\<close>. Each \<open>let\<close> is one assignment of the source, in the
  source's order; a later assignment reads the fields set before it. The field
  \<^verbatim>\<open>wt.helmholtz\<close> is \<open>helmholtz_energy\<close> here, the name \<open>helmholtz\<close> being taken by the
  argument's record. C++ parses \<^verbatim>\<open>-a/b\<close> as \<open>(-a)/b\<close> and \<^verbatim>\<open>a/b*c*c/d\<close> from the left, as
  HOL does.
\<close>

definition waterThermoState ::
  "'a::{numeral,times,minus,uminus,inverse} \<Rightarrow> 'a \<Rightarrow> 'a \<Rightarrow> 'a WaterHelmholtzState
     \<Rightarrow> 'a WaterThermoState" where
  "waterThermoState T P D wh =
     (let wt_temperature = T;
          wt_pressure = P;
          wt_pressureD = 2 * D * helmholtzD wh + D * D * helmholtzDD wh;
          wt_pressureT = D * D * helmholtzTD wh;
          wt_pressureDD = 2 * helmholtzD wh + 4 * D * helmholtzDD wh + D * D * helmholtzDDD wh;
          wt_pressureTD = 2 * D * helmholtzTD wh + D * D * helmholtzTDD wh;
          wt_pressureTT = D * D * helmholtzTTD wh;
          wt_density = D;
          wt_densityT = - wt_pressureT / wt_pressureD;
          wt_densityP = 1 / wt_pressureD;
          wt_densityTT = - wt_densityT * wt_densityP *
             (wt_densityT * wt_pressureDD + 2 * wt_pressureTD + wt_pressureTT / wt_densityT);
          wt_densityTP = - wt_densityP * wt_densityP * (wt_densityT * wt_pressureDD + wt_pressureTD);
          wt_densityPP = - wt_densityP * wt_densityP * wt_densityP * wt_pressureDD;
          wt_volume = 1 / D;
          wt_entropy = - helmholtzT wh;
          wt_helmholtz = helmholtz wh;
          wt_internal_energy = wt_helmholtz + T * wt_entropy;
          wt_enthalpy = wt_internal_energy + P / D;
          wt_gibbs = wt_enthalpy - T * wt_entropy;
          wt_cv = - T * helmholtzTT wh;
          wt_cp = wt_cv + T / (D * D) * wt_pressureT * wt_pressureT / wt_pressureD
      in \<lparr>temperature = wt_temperature, pressure = wt_pressure, pressureD = wt_pressureD,
          pressureT = wt_pressureT, pressureDD = wt_pressureDD, pressureTD = wt_pressureTD,
          pressureTT = wt_pressureTT, density = wt_density, densityT = wt_densityT,
          densityP = wt_densityP, densityTT = wt_densityTT, densityTP = wt_densityTP,
          densityPP = wt_densityPP, volume = wt_volume, entropy = wt_entropy,
          helmholtz_energy = wt_helmholtz, internal_energy = wt_internal_energy,
          enthalpy = wt_enthalpy, gibbs = wt_gibbs, cv = wt_cv, cp = wt_cp\<rparr>)"

section \<open>Failures\<close>

text \<open>
  What a call of the source can end in instead of a result.
  \<^item> \<open>Raised error reason\<close>: the exception thrown by \<^verbatim>\<open>raise(exception)\<close> and by
    \<^verbatim>\<open>error(error, reason)\<close> of \<^verbatim>\<open>Exception.hpp\<close>, with the two texts it carries.
  \<^item> \<open>OutOfBounds\<close>: \<^verbatim>\<open>operator[]\<close> or \<^verbatim>\<open>row\<close> applied past the end of a vector or matrix,
    which C++ leaves undefined.
  \<^item> \<open>SizeMismatch\<close>: vectors of different sizes added to each other.
  \<^item> \<open>NotFinite\<close> and \<open>Underflow\<close>: a \<^verbatim>\<open>double\<close> that no real number stands for, see above.
\<close>

datatype failure = Raised string string | OutOfBounds | SizeMismatch | NotFinite | Underflow

definition bindr :: "failure + 'a \<Rightarrow> ('a \<Rightarrow> failure + 'b) \<Rightarrow> failure + 'b" where
  "bindr m f = (case m of Inl e \<Rightarrow> Inl e | Inr x \<Rightarrow> f x)"

text \<open>\<^verbatim>\<open>xs[i]\<close> on a \<^verbatim>\<open>std::vector\<close>.\<close>

definition vec_at :: "'a list \<Rightarrow> nat \<Rightarrow> failure + 'a" where
  "vec_at xs i = (if i < length xs then Inr (xs ! i) else Inl OutOfBounds)"

text \<open>A value of type \<^verbatim>\<open>unsigned\<close> initialised from a container's \<^verbatim>\<open>size()\<close>: 32 bits.\<close>

definition to_unsigned :: "nat \<Rightarrow> nat" where
  "to_unsigned n = n mod 2 ^ 32"

section \<open>Reactions: \<^verbatim>\<open>ReactionUtils.cpp\<close>\<close>

text \<open>
  What the functions read of a \<^verbatim>\<open>Reaction\<close> (declared in \<^verbatim>\<open>Reaction.hpp\<close>): the names of
  its species, their indices in the chemical system and their stoichiometric coefficients,
  numbers of the type \<open>'a\<close>. The three vectors run in parallel; \<open>wf_Reaction\<close> says so, and
  that the number of species fits the \<^verbatim>\<open>unsigned\<close> that \<^verbatim>\<open>numSpecies\<close> returns.
\<close>

record 'a Reaction =
  species :: "string list"
  indices :: "nat list"
  stoichiometries :: "'a list"

definition wf_Reaction :: "'a Reaction \<Rightarrow> bool" where
  "wf_Reaction reaction =
     (length (indices reaction) = length (species reaction)
      \<and> length (stoichiometries reaction) = length (species reaction)
      \<and> length (species reaction) < 2 ^ 32)"

definition numSpecies :: "'a Reaction \<Rightarrow> nat" where
  "numSpecies reaction = to_unsigned (length (species reaction))"

text \<open>
  \<^verbatim>\<open>std::find(begin, end, x) - begin\<close>: the distance from the beginning to the first element
  equal to \<open>x\<close>, the whole length when there is none. The result is an \<^verbatim>\<open>Index\<close>, a type wide
  enough for every distance within a vector.
\<close>

fun std_find :: "'a list \<Rightarrow> 'a \<Rightarrow> nat" where
  "std_find [] x = 0"
| "std_find (y # ys) x = (if y = x then 0 else Suc (std_find ys x))"

definition indexSpecies :: "'a Reaction \<Rightarrow> string \<Rightarrow> nat" where
  "indexSpecies reaction sp = std_find (species reaction) sp"

definition containsSpecies :: "'a Reaction \<Rightarrow> string \<Rightarrow> bool" where
  "containsSpecies reaction sp = (indexSpecies reaction sp < numSpecies reaction)"

definition stoichiometry :: "'a::zero Reaction \<Rightarrow> string \<Rightarrow> failure + 'a" where
  "stoichiometry reaction sp =
     (let index = indexSpecies reaction sp
      in if index < numSpecies reaction then vec_at (stoichiometries reaction) index else Inr 0)"

subsection \<open>\<^verbatim>\<open>equilibriumConstant\<close>\<close>

text \<open>
  Of a \<^verbatim>\<open>Species\<close> the function reads the chemical potential, a function of temperature and
  pressure; of the \<^verbatim>\<open>Multiphase\<close> system it reads the species, \<^verbatim>\<open>multiphase.species()\<close>, here
  \<open>system_species\<close> since a reaction has \<open>species\<close> too.
\<close>

record 'a Species =
  chemicalPotential :: "'a \<Rightarrow> 'a \<Rightarrow> 'a"

record 'a Multiphase =
  system_species :: "'a Species list"

text \<open>
  The loop \<^verbatim>\<open>for(Index i : reaction.indices()) mu.push_back(species[i].chemicalPotential())\<close>,
  over the indices still to visit.
\<close>

fun collect_mu ::
  "'a Species list \<Rightarrow> nat list \<Rightarrow> ('a \<Rightarrow> 'a \<Rightarrow> 'a) list \<Rightarrow> failure + ('a \<Rightarrow> 'a \<Rightarrow> 'a) list" where
  "collect_mu sps [] mu = Inr mu"
| "collect_mu sps (i # is) mu =
     bindr (vec_at sps i) (\<lambda>s. collect_mu sps is (mu @ [chemicalPotential s]))"

text \<open>
  The loop of the closure, \<^verbatim>\<open>sum += stoichiometries[i] * mu[i](T, P)\<close>, over the values of
  \<open>i\<close> still to visit; \<open>acc\<close> is the variable \<^verbatim>\<open>sum\<close>.
\<close>

fun kappa_sum ::
  "'a::{plus,times} list \<Rightarrow> ('a \<Rightarrow> 'a \<Rightarrow> 'a) list \<Rightarrow> 'a \<Rightarrow> 'a \<Rightarrow> nat list \<Rightarrow> 'a
     \<Rightarrow> failure + 'a" where
  "kappa_sum sts mu T P [] acc = Inr acc"
| "kappa_sum sts mu T P (i # is) acc =
     bindr (vec_at sts i) (\<lambda>vi.
     bindr (vec_at mu i) (\<lambda>mui.
       kappa_sum sts mu T P is (acc + vi * mui T P)))"

text \<open>
  \<^verbatim>\<open>equilibriumConstant(multiphase, reaction)\<close>. The function \<^verbatim>\<open>std::exp\<close> of the C++ library
  is the argument \<open>std_exp\<close> and the constant \<^verbatim>\<open>universalGasConstant\<close> of \<^verbatim>\<open>Constants.hpp\<close> is
  the argument \<open>R\<close>. The result is the closure \<^verbatim>\<open>kappa\<close>, which has captured the
  stoichiometries, the number of species, \<open>R\<close> and the collected potentials. The closure
  divides and takes the exponential with no check, as the source does: what it returns at
  the temperature zero, or where the exponential overflows, is what the number type makes
  of it.
\<close>

definition equilibriumConstant ::
  "('a \<Rightarrow> 'a) \<Rightarrow> 'a::{zero,plus,times,uminus,inverse} \<Rightarrow> 'a Multiphase \<Rightarrow> 'a Reaction
     \<Rightarrow> failure + ('a \<Rightarrow> 'a \<Rightarrow> failure + 'a)" where
  "equilibriumConstant std_exp R multiphase reaction =
     (let sps = system_species multiphase;
          sts = stoichiometries reaction;
          num_species = numSpecies reaction
      in bindr (collect_mu sps (indices reaction) []) (\<lambda>mu.
           Inr (\<lambda>T P.
             bindr (kappa_sum sts mu T P [0..<num_species] 0) (\<lambda>sum.
               Inr (std_exp (- sum / (R * T)))))))"

subsection \<open>\<^verbatim>\<open>reactionQuotient\<close>\<close>

text \<open>
  \<^verbatim>\<open>ScalarResult\<close> and \<^verbatim>\<open>VectorResult\<close>: a value and its derivatives with respect to the
  amounts of the species. For a scalar the derivatives are a vector, for a vector they are a
  matrix with one row per component, here the list of its rows.
\<close>

record ('v, 'g) result =
  val :: 'v
  grad :: 'g

type_synonym 'a ScalarResult = "('a, 'a list) result"

type_synonym 'a VectorResult = "('a list, 'a list list) result"

definition zeros :: "nat \<Rightarrow> 'a::zero list" where
  "zeros n = replicate n 0"

text \<open>\<^verbatim>\<open>u += c * row\<close> on vectors.\<close>

definition add_scaled :: "'a::{plus,times} list \<Rightarrow> 'a \<Rightarrow> 'a list \<Rightarrow> failure + 'a list" where
  "add_scaled u c row =
     (if length row = length u then Inr (map2 (\<lambda>x y. x + c * y) u row) else Inl SizeMismatch)"

text \<open>
  The first loop: \<^verbatim>\<open>Q.val *= std::pow(ai, vi)\<close>. The function \<^verbatim>\<open>std::pow\<close> of the C++ library
  is the argument \<open>std_pow\<close>.
\<close>

fun quotient_val ::
  "('a \<Rightarrow> 'a \<Rightarrow> 'a) \<Rightarrow> 'a::times Reaction \<Rightarrow> 'a VectorResult \<Rightarrow> nat list \<Rightarrow> 'a
     \<Rightarrow> failure + 'a" where
  "quotient_val std_pow reaction a [] Qval = Inr Qval"
| "quotient_val std_pow reaction a (i # is) Qval =
     bindr (vec_at (stoichiometries reaction) i) (\<lambda>vi.
     bindr (vec_at (indices reaction) i) (\<lambda>k.
     bindr (vec_at (val a) k) (\<lambda>ai.
       quotient_val std_pow reaction a is (Qval * std_pow ai vi))))"

text \<open>The second loop: \<^verbatim>\<open>Q.grad += Q.val * vi/ai * a.grad.row(indices[i])\<close>.\<close>

fun quotient_grad ::
  "'a::{plus,times,inverse} Reaction \<Rightarrow> 'a VectorResult \<Rightarrow> 'a \<Rightarrow> nat list \<Rightarrow> 'a list
     \<Rightarrow> failure + 'a list" where
  "quotient_grad reaction a Qval [] Qgrad = Inr Qgrad"
| "quotient_grad reaction a Qval (i # is) Qgrad =
     bindr (vec_at (stoichiometries reaction) i) (\<lambda>vi.
     bindr (vec_at (indices reaction) i) (\<lambda>k.
     bindr (vec_at (val a) k) (\<lambda>ai.
     bindr (vec_at (grad a) k) (\<lambda>row.
     bindr (add_scaled Qgrad (Qval * vi / ai) row) (\<lambda>Qgrad'.
       quotient_grad reaction a Qval is Qgrad')))))"

definition reactionQuotient ::
  "('a \<Rightarrow> 'a \<Rightarrow> 'a) \<Rightarrow> 'a::{zero,one,plus,times,inverse} Reaction \<Rightarrow> 'a VectorResult
     \<Rightarrow> failure + 'a ScalarResult" where
  "reactionQuotient std_pow reaction a =
     (let size = to_unsigned (length (val a))
      in bindr (quotient_val std_pow reaction a [0..<numSpecies reaction] 1) (\<lambda>Qval.
         bindr (quotient_grad reaction a Qval [0..<numSpecies reaction] (zeros size)) (\<lambda>Qgrad.
           Inr \<lparr>val = Qval, grad = Qgrad\<rparr>)))"

subsection \<open>Sample reactions\<close>

text \<open>
  In exact arithmetic: the reaction \<open>A + B \<rightleftharpoons> C\<close> of the specification, with the activities
  2, 3 and 1 and the identity matrix as their derivatives, so that the gradient is taken
  with respect to the activities themselves; the same reaction in a system with a fourth
  species of activity zero that takes no part in it; and a reaction \<open>A \<rightleftharpoons> C\<close> in a system of
  three species with constant chemical potentials.
\<close>

definition abc_reaction :: "real Reaction" where
  "abc_reaction = \<lparr>species = [''A'', ''B'', ''C''], indices = [0, 1, 2],
                     stoichiometries = [- 1, - 1, 1]\<rparr>"

definition abc_activities :: "real VectorResult" where
  "abc_activities = \<lparr>val = [2, 3, 1], grad = [[1, 0, 0], [0, 1, 0], [0, 0, 1]]\<rparr>"

definition abc_reaction_in_water :: "real Reaction" where
  "abc_reaction_in_water = \<lparr>species = [''A'', ''B'', ''C''], indices = [0, 2, 3],
                     stoichiometries = [- 1, - 1, 1]\<rparr>"

definition abc_activities_in_water :: "real VectorResult" where
  "abc_activities_in_water =
     \<lparr>val = [2, 0, 3, 1], grad = [[1, 0, 0, 0], [0, 1, 0, 0], [0, 0, 1, 0], [0, 0, 0, 1]]\<rparr>"

definition mpx :: "real Multiphase" where
  "mpx = \<lparr>system_species = [\<lparr>chemicalPotential = (\<lambda>T P. 1)\<rparr>,
      \<lparr>chemicalPotential = (\<lambda>T P. 2)\<rparr>, \<lparr>chemicalPotential = (\<lambda>T P. 5)\<rparr>]\<rparr>"

definition rx :: "real Reaction" where
  "rx = \<lparr>species = [''A'', ''C''], indices = [0, 2], stoichiometries = [- 1, 1]\<rparr>"

section \<open>Mineral mechanisms: \<^verbatim>\<open>MineralMechanism.cpp\<close>\<close>

subsection \<open>Strings\<close>

text \<open>
  \<^verbatim>\<open>str.find(pat) != std::string::npos\<close> of the C++ library: \<open>pat\<close> occurs in \<open>str\<close>.
\<close>

fun starts_with :: "string \<Rightarrow> string \<Rightarrow> bool" where
  "starts_with str [] = True"
| "starts_with [] (c # cs) = False"
| "starts_with (d # ds) (c # cs) = (d = c \<and> starts_with ds cs)"

fun contains :: "string \<Rightarrow> string \<Rightarrow> bool" where
  "contains [] pat = (pat = [])"
| "contains (d # ds) pat = (starts_with (d # ds) pat \<or> contains ds pat)"

text \<open>
  Modelled from the spec: \<^verbatim>\<open>split(str, delims)\<close> of \<^verbatim>\<open>Reaktor/Utils/StringUtils.hpp\<close>, which
  is not among the sources. The specification has a mechanism string made of options
  separated by commas and an option made of a key, a value and a unit; the constructor
  obtains the former with the delimiters \<^verbatim>\<open>","\<close> and the latter with the delimiters \<^verbatim>\<open>"= "\<close>,
  and asks whether the result is empty. So \<open>split\<close> yields the words of \<open>str\<close>, the longest
  runs of characters none of which is one of \<open>delims\<close>, in their order; a run of delimiters
  yields no empty word. \<open>split_words\<close> scans the string with the word read so far.
\<close>

fun split_words :: "string \<Rightarrow> string \<Rightarrow> string \<Rightarrow> string list" where
  "split_words delims word [] = (if word = [] then [] else [word])"
| "split_words delims word (c # cs) =
     (if c \<in> set delims
      then (if word = [] then split_words delims [] cs else word # split_words delims [] cs)
      else split_words delims (word @ [c]) cs)"

definition split :: "string \<Rightarrow> string \<Rightarrow> string list" where
  "split str delims = split_words delims [] str"

subsection \<open>Numbers\<close>

text \<open>
  The numbers of a mechanism are doubles read as real numbers. \<open>largest_double\<close> is the
  largest finite \<^verbatim>\<open>double\<close> and \<open>smallest_normal_double\<close> the smallest positive normal one.
\<close>

definition largest_double :: real where
  "largest_double = (2 ^ 53 - 1) * 2 ^ 971"

definition smallest_normal_double :: real where
  "smallest_normal_double = 1 / 2 ^ 1022"

text \<open>
  \<^verbatim>\<open>std::pow(x, y)\<close> of the C++ library. \<open>pow_defined\<close> tells where the power is a real
  number and \<open>pow_value\<close> is that number: a positive base gives \<open>x powr y\<close>; the exponent
  zero gives one for every base; the base zero gives zero for a positive exponent and a
  pole for a negative one; a negative base has a power for an integral exponent only.
  \<open>pow\<close> is the call: it ends in \<open>NotFinite\<close> where the power is no real number or exceeds
  the largest \<^verbatim>\<open>double\<close>, and in \<open>Underflow\<close> where the power is not zero and lies below the
  smallest normal \<^verbatim>\<open>double\<close>.
\<close>

definition pow_defined :: "real \<Rightarrow> real \<Rightarrow> bool" where
  "pow_defined x y = (0 < x \<or> y = 0 \<or> (x = 0 \<and> 0 < y) \<or> (x < 0 \<and> y \<in> \<int>))"

definition pow_value :: "real \<Rightarrow> real \<Rightarrow> real" where
  "pow_value x y =
     (if 0 < x then x powr y
      else if y = 0 then 1
      else if x = 0 then 0
      else (if even \<lfloor>y\<rfloor> then 1 else - 1) * (- x) powr y)"

definition pow :: "real \<Rightarrow> real \<Rightarrow> failure + real" where
  "pow x y =
     (if \<not> pow_defined x y \<or> largest_double < \<bar>pow_value x y\<bar> then Inl NotFinite
      else if pow_value x y \<noteq> 0 \<and> \<bar>pow_value x y\<bar> < smallest_normal_double then Inl Underflow
      else Inr (pow_value x y))"

subsection \<open>What the constructor calls\<close>

text \<open>
  These functions of the library are declared in headers that are not among the sources;
  the model of the constructor takes them as the record \<open>X\<close>:
  \<^item> \<^verbatim>\<open>tofloat\<close> of \<^verbatim>\<open>StringUtils.hpp\<close>, which reads a number from a word, or fails;
  \<^item> \<^verbatim>\<open>units::convertible\<close> and \<^verbatim>\<open>units::convert\<close> of \<^verbatim>\<open>Units.hpp\<close>;
  \<^item> the constructor of \<^verbatim>\<open>MineralCatalyst\<close> from an option, which builds a catalyst, or
    fails. The type of catalysts is the parameter \<open>'c\<close>.
\<close>

record 'c externals =
  tofloat :: "string \<Rightarrow> failure + real"
  units_convertible :: "string \<Rightarrow> string \<Rightarrow> bool"
  units_convert :: "real \<Rightarrow> string \<Rightarrow> string \<Rightarrow> real"
  MineralCatalyst :: "string \<Rightarrow> failure + 'c"

subsection \<open>The mechanism\<close>

text \<open>
  The members of \<^verbatim>\<open>MineralMechanism\<close> that the constructor and the setters assign. The
  values they have before the body of the constructor runs are given in
  \<^verbatim>\<open>MineralMechanism.hpp\<close>, not among the sources: the model takes the mechanism in that
  state as an argument.
\<close>

record 'c MineralMechanism =
  kappa :: real
  Ea :: real
  p :: real
  q :: real
  catalysts :: "'c list"

definition unknownOptionError :: "string \<Rightarrow> failure" where
  "unknownOptionError option =
     Raised (''Cannot set the option '' @ option @ '' in the mineral mechanism.'')
       ''This option has incorrect format or is not supported.''"

definition missingUnitError :: "string \<Rightarrow> failure" where
  "missingUnitError quantity =
     Raised (''Cannot set the quantity '' @ quantity @ '' in the mineral mechanism.'')
       (''The units of quantity '' @ quantity @ '' have not been specified.'')"

definition checkRateConstantUnit :: "'c externals \<Rightarrow> string \<Rightarrow> failure + unit" where
  "checkRateConstantUnit X unit =
     (if \<not> units_convertible X unit ''mol/(m2*s)''
      then Inl (Raised ''Cannot set the kinetic rate constant of the mineral reaction''
                  ''The provided unit cannot be converted to mol/(m2*s)'')
      else Inr ())"

definition checkActivationEnergyUnit :: "'c externals \<Rightarrow> string \<Rightarrow> failure + unit" where
  "checkActivationEnergyUnit X unit =
     (if \<not> units_convertible X unit ''kJ/mol''
      then Inl (Raised ''Cannot set the Arrhenius activation energy of the mineral reaction''
                  ''The provided unit cannot be converted to kJ/mol'')
      else Inr ())"

definition setRateConstant ::
  "'c externals \<Rightarrow> 'c MineralMechanism \<Rightarrow> real \<Rightarrow> string \<Rightarrow> failure + 'c MineralMechanism" where
  "setRateConstant X this value unit =
     bindr (checkRateConstantUnit X unit) (\<lambda>_.
       Inr (this\<lparr>kappa := units_convert X value unit ''mol/(m2*s)''\<rparr>))"

definition setActivationEnergy ::
  "'c externals \<Rightarrow> 'c MineralMechanism \<Rightarrow> real \<Rightarrow> string \<Rightarrow> failure + 'c MineralMechanism" where
  "setActivationEnergy X this value unit =
     bindr (checkActivationEnergyUnit X unit) (\<lambda>_.
       Inr (this\<lparr>Ea := units_convert X value unit ''kJ/mol''\<rparr>))"

text \<open>
  The body of the loop of \<^verbatim>\<open>MineralMechanism::MineralMechanism(const std::string&)\<close>, for
  one option: a catalyst, or up to three words.
\<close>

definition setOption ::
  "'c externals \<Rightarrow> 'c MineralMechanism \<Rightarrow> string \<Rightarrow> failure + 'c MineralMechanism" where
  "setOption X this option =
     (if contains option ''a['' \<or> contains option ''activity[''
         \<or> contains option ''p['' \<or> contains option ''pressure[''
      then bindr (MineralCatalyst X option) (\<lambda>c. Inr (this\<lparr>catalysts := catalysts this @ [c]\<rparr>))
      else
        let words = split option ''= ''
        in if words = [] \<or> length words > 3 then Inl (unknownOptionError option)
           else
             bindr (vec_at words 0) (\<lambda>quantity.
             bindr (vec_at words 1) (\<lambda>word.
             bindr (tofloat X word) (\<lambda>value.
               if (quantity = ''logk'' \<or> quantity = ''Ea'') \<and> length words < 3
               then Inl (missingUnitError quantity)
               else
                 let unit = (if length words = 3 then words ! 2 else [])
                 in if quantity = ''logk''
                    then bindr (pow 10 value) (\<lambda>k. setRateConstant X this k unit)
                    else if quantity = ''Ea'' then setActivationEnergy X this value unit
                    else if quantity = ''p'' then Inr (this\<lparr>p := value\<rparr>)
                    else if quantity = ''q'' then Inr (this\<lparr>q := value\<rparr>)
                    else Inl (unknownOptionError option)))))"

text \<open>The loop over the options, which the first failure leaves.\<close>

fun setOptions ::
  "'c externals \<Rightarrow> string list \<Rightarrow> 'c MineralMechanism \<Rightarrow> failure + 'c MineralMechanism" where
  "setOptions X [] this = Inr this"
| "setOptions X (option # options) this =
     bindr (setOption X this option) (setOptions X options)"

text \<open>The constructor: \<open>this\<close> is the mechanism as its members are initialised.\<close>

definition MineralMechanism_ctor ::
  "'c externals \<Rightarrow> 'c MineralMechanism \<Rightarrow> string \<Rightarrow> failure + 'c MineralMechanism" where
  "MineralMechanism_ctor X this mechanism = setOptions X (split mechanism '','') this"

subsection \<open>An instance to evaluate the constructor with\<close>

text \<open>
  Decimal numerals: an optional minus sign, digits, and optionally a point and further
  digits. A word that is no such numeral is read as zero.
\<close>

definition digit :: "char \<Rightarrow> nat" where
  "digit c = std_find ''0123456789'' c"

fun digits :: "string \<Rightarrow> nat \<Rightarrow> nat" where
  "digits [] n = n"
| "digits (c # cs) n = digits cs (10 * n + digit c)"

definition unsigned_decimal :: "string \<Rightarrow> real" where
  "unsigned_decimal s =
     (let whole = takeWhile (\<lambda>c. c \<noteq> CHR ''.'') s;
          frac = drop 1 (dropWhile (\<lambda>c. c \<noteq> CHR ''.'') s)
      in if whole @ frac \<noteq> [] \<and> list_all (\<lambda>c. digit c < 10) (whole @ frac)
         then real (digits whole 0) + real (digits frac 0) / 10 ^ length frac
         else 0)"

definition decimal :: "string \<Rightarrow> real" where
  "decimal s = (case s of CHR ''-'' # ds \<Rightarrow> - unsigned_decimal ds | _ \<Rightarrow> unsigned_decimal s)"

text \<open>
  The instance: words are read as decimal numerals, a unit converts to itself and to no
  other, by the identity, and a catalyst is the text of its option. \<open>plain_mechanism\<close> is a
  mechanism for the constructor to start from.
\<close>

definition plain_externals :: "string externals" where
  "plain_externals =
     \<lparr>tofloat = (\<lambda>word. Inr (decimal word)),
      units_convertible = (\<lambda>from to. from = to),
      units_convert = (\<lambda>value from to. value),
      MineralCatalyst = (\<lambda>option. Inr option)\<rparr>"

definition plain_mechanism :: "string MineralMechanism" where
  "plain_mechanism = \<lparr>kappa = 0, Ea = 0, p = 1, q = 1, catalysts = []\<rparr>"

section \<open>Aqueous mixtures: \<^verbatim>\<open>AqueousMixture.hpp\<close>\<close>

text \<open>
  The header declares the class; the bodies of its member functions
  (\<^verbatim>\<open>AqueousMixture.cpp\<close>) and the classes \<^verbatim>\<open>AqueousSpecies\<close> and \<^verbatim>\<open>GeneralMixture\<close> are not
  among the sources. Of a species the classification reads the electrical charge. Of the
  members the header declares, the index of water and the dissociation matrix are left out:
  no function below reads them.
\<close>

record AqueousSpecies =
  charge :: real

record AqueousMixture =
  mixture_species :: "AqueousSpecies list"
  idx_neutral_species :: "nat list"
  idx_charged_species :: "nat list"
  idx_cations :: "nat list"
  idx_anions :: "nat list"

text \<open>
  Modelled from the spec: the constructor \<^verbatim>\<open>AqueousMixture(species)\<close>, whose body is missing.
  The specification, 4.2: the mixture ``classifies each species at construction time into
  neutral vs. charged, and charged into cations/anions by sign of charge''. The index
  members hold the positions of the species of each class, in increasing order.
\<close>

definition AqueousMixture_ctor :: "AqueousSpecies list \<Rightarrow> AqueousMixture" where
  "AqueousMixture_ctor sps =
     \<lparr>mixture_species = sps,
      idx_neutral_species = filter (\<lambda>i. charge (sps ! i) = 0) [0..<length sps],
      idx_charged_species = filter (\<lambda>i. charge (sps ! i) \<noteq> 0) [0..<length sps],
      idx_cations = filter (\<lambda>i. 0 < charge (sps ! i)) [0..<length sps],
      idx_anions = filter (\<lambda>i. charge (sps ! i) < 0) [0..<length sps]\<rparr>"

text \<open>
  Modelled from the spec: the accessors, whose bodies are missing. The header declares the
  counts as \<^verbatim>\<open>unsigned\<close> and the index sets as references to the members; the specification
  names them the number and the indices of the species of each class.
\<close>

definition numNeutralSpecies :: "AqueousMixture \<Rightarrow> nat" where
  "numNeutralSpecies mixture = to_unsigned (length (idx_neutral_species mixture))"

definition numChargedSpecies :: "AqueousMixture \<Rightarrow> nat" where
  "numChargedSpecies mixture = to_unsigned (length (idx_charged_species mixture))"

definition indicesNeutralSpecies :: "AqueousMixture \<Rightarrow> nat list" where
  "indicesNeutralSpecies mixture = idx_neutral_species mixture"

definition indicesChargedSpecies :: "AqueousMixture \<Rightarrow> nat list" where
  "indicesChargedSpecies mixture = idx_charged_species mixture"

definition indicesCations :: "AqueousMixture \<Rightarrow> nat list" where
  "indicesCations mixture = idx_cations mixture"

definition indicesAnions :: "AqueousMixture \<Rightarrow> nat list" where
  "indicesAnions mixture = idx_anions mixture"

definition sample_mixture :: AqueousMixture where
  "sample_mixture =
     AqueousMixture_ctor [\<lparr>charge = 0\<rparr>, \<lparr>charge = 1\<rparr>, \<lparr>charge = - 1\<rparr>, \<lparr>charge = 0\<rparr>, \<lparr>charge = 2\<rparr>]"

section \<open>Theorems\<close>

subsection \<open>Failures and vector reads\<close>

lemma bindr_Inr [simp]: "bindr (Inr x) f = f x"
  by (simp add: bindr_def)

lemma bindr_Inl [simp]: "bindr (Inl e) f = Inl e"
  by (simp add: bindr_def)

lemma vec_at_in_range [simp]: "i < length xs \<Longrightarrow> vec_at xs i = Inr (xs ! i)"
  by (simp add: vec_at_def)

lemma vec_at_out_of_range [simp]: "length xs \<le> i \<Longrightarrow> vec_at xs i = Inl OutOfBounds"
  by (simp add: vec_at_def)

lemma to_unsigned_small [simp]: "n < 2 ^ 32 \<Longrightarrow> to_unsigned n = n"
  by (simp add: to_unsigned_def)

subsection \<open>Looking a species up in a reaction\<close>

lemma std_find_absent: "x \<notin> set xs \<Longrightarrow> std_find xs x = length xs"
  by (induction xs) auto

lemma std_find_present: "x \<in> set xs \<Longrightarrow> std_find xs x < length xs \<and> xs ! std_find xs x = x"
  by (induction xs) auto

lemma std_find_first: "j < std_find xs x \<Longrightarrow> xs ! j \<noteq> x"
proof (induction xs arbitrary: j)
  case Nil
  then show ?case by simp
next
  case (Cons y ys)
  then show ?case by (cases j) (auto split: if_splits)
qed

lemma std_find_less_iff: "std_find xs x < length xs \<longleftrightarrow> x \<in> set xs"
  by (induction xs) auto

subsection \<open>The thermodynamic state of water\<close>

text \<open>
  C3. For every temperature, pressure, density and Helmholtz state, \<^verbatim>\<open>waterThermoState\<close>
  sets \<open>densityT = - pressureT / pressureD\<close> and \<open>densityP = 1 / pressureD\<close>, where
  \<open>pressureD = 2 * D * helmholtzD + D * D * helmholtzDD\<close> and
  \<open>pressureT = D * D * helmholtzTD\<close> are the pressure derivatives it computed. The statement
  holds whatever the arithmetic operators are, so also where \<open>pressureD\<close> is zero and the
  quotients are what the number type makes of a division by zero.
\<close>

theorem waterThermoState_density_derivatives:
  fixes T P D :: "'a::{numeral,times,minus,uminus,inverse}"
  shows "densityT (waterThermoState T P D wh)
           = - pressureT (waterThermoState T P D wh) / pressureD (waterThermoState T P D wh)
       \<and> densityP (waterThermoState T P D wh) = 1 / pressureD (waterThermoState T P D wh)
       \<and> pressureD (waterThermoState T P D wh)
           = 2 * D * helmholtzD wh + D * D * helmholtzDD wh
       \<and> pressureT (waterThermoState T P D wh) = D * D * helmholtzTD wh"
  by (simp add: waterThermoState_def Let_def)

text \<open>
  C4. For every input, the specific isochoric heat capacity is \<open>cv = - T * helmholtzTT\<close> and
  the specific isobaric heat capacity is \<open>cv\<close> plus the correction term the source computes,
  \<open>T / (D * D) * pressureT * pressureT / pressureD\<close>; over the reals this term is
  \<open>T / (D * D) * pressureT\<^sup>2 / pressureD\<close>.
\<close>

theorem waterThermoState_heat_capacities:
  fixes T P D :: "'a::{numeral,times,minus,uminus,inverse}"
    and Tr Pr Dr :: real
  shows "cv (waterThermoState T P D wh) = - T * helmholtzTT wh
       \<and> cp (waterThermoState T P D wh)
           = cv (waterThermoState T P D wh)
             + T / (D * D) * pressureT (waterThermoState T P D wh)
               * pressureT (waterThermoState T P D wh) / pressureD (waterThermoState T P D wh)
       \<and> cp (waterThermoState Tr Pr Dr whr)
           = cv (waterThermoState Tr Pr Dr whr)
             + Tr / (Dr * Dr) * (pressureT (waterThermoState Tr Pr Dr whr))\<^sup>2
               / pressureD (waterThermoState Tr Pr Dr whr)"
  by (simp add: waterThermoState_def Let_def power2_eq_square)

subsection \<open>Lookups in a reaction\<close>

text \<open>
  C7. For every reaction whose stoichiometries run in parallel with its species (fewer than
  \<open>2\<^sup>3\<^sup>2\<close> of them, the range of \<^verbatim>\<open>unsigned\<close>) and every species name: \<^verbatim>\<open>indexSpecies\<close>
  returns the first position of the name among the reaction's species when it is there,
  and the number of species, the sentinel, when it is not; \<^verbatim>\<open>containsSpecies\<close> is true
  exactly when that index is below the number of species, which is exactly when the name is
  among the species; \<^verbatim>\<open>stoichiometry\<close> returns the coefficient at that position when the
  species takes part and zero otherwise, and does not fail.
\<close>

theorem lookup_sentinel:
  assumes "length (stoichiometries reaction) = length (species reaction)"
    and "length (species reaction) < 2 ^ 32"
  shows "(sp \<in> set (species reaction) \<longrightarrow>
            indexSpecies reaction sp < numSpecies reaction
          \<and> species reaction ! indexSpecies reaction sp = sp
          \<and> (\<forall>j < indexSpecies reaction sp. species reaction ! j \<noteq> sp))
       \<and> (sp \<notin> set (species reaction) \<longrightarrow> indexSpecies reaction sp = numSpecies reaction)
       \<and> containsSpecies reaction sp = (indexSpecies reaction sp < numSpecies reaction)
       \<and> containsSpecies reaction sp = (sp \<in> set (species reaction))
       \<and> stoichiometry reaction sp =
           Inr (if sp \<in> set (species reaction)
                then stoichiometries reaction ! indexSpecies reaction sp else 0)"
proof -
  have n: "numSpecies reaction = length (species reaction)"
    using assms(2) by (simp add: numSpecies_def)
  have present: "indexSpecies reaction sp < length (species reaction)
      \<and> species reaction ! indexSpecies reaction sp = sp" if "sp \<in> set (species reaction)"
    using that std_find_present [of sp "species reaction"] by (simp add: indexSpecies_def)
  have first: "\<forall>j < indexSpecies reaction sp. species reaction ! j \<noteq> sp"
    using std_find_first [of _ "species reaction" sp] by (simp add: indexSpecies_def)
  have absent: "indexSpecies reaction sp = length (species reaction)"
    if "sp \<notin> set (species reaction)"
    using that by (simp add: indexSpecies_def std_find_absent)
  have iff: "indexSpecies reaction sp < length (species reaction) \<longleftrightarrow> sp \<in> set (species reaction)"
    by (simp add: indexSpecies_def std_find_less_iff)
  have st: "stoichiometry reaction sp =
      Inr (if sp \<in> set (species reaction)
           then stoichiometries reaction ! indexSpecies reaction sp else 0)"
    using iff assms(1) by (simp add: stoichiometry_def Let_def n)
  show ?thesis
    using present first absent iff st by (simp add: containsSpecies_def n)
qed

theorem lookup_sentinel_witness:
  "length (stoichiometries \<lparr>species = [''A'', ''B'', ''C''], indices = [0, 1, 2], stoichiometries = [- 1, - 1, 1 :: real]\<rparr>)
     = length (species \<lparr>species = [''A'', ''B'', ''C''], indices = [0, 1, 2], stoichiometries = [- 1, - 1, 1 :: real]\<rparr>)
   \<and> length (species \<lparr>species = [''A'', ''B'', ''C''], indices = [0, 1, 2], stoichiometries = [- 1, - 1, 1 :: real]\<rparr>) < (2::nat) ^ 32
   \<and> indexSpecies \<lparr>species = [''A'', ''B'', ''C''], indices = [0, 1, 2], stoichiometries = [- 1, - 1, 1 :: real]\<rparr> ''B'' = 1
   \<and> containsSpecies \<lparr>species = [''A'', ''B'', ''C''], indices = [0, 1, 2], stoichiometries = [- 1, - 1, 1 :: real]\<rparr> ''B''
   \<and> stoichiometry \<lparr>species = [''A'', ''B'', ''C''], indices = [0, 1, 2], stoichiometries = [- 1, - 1, 1 :: real]\<rparr> ''B'' = Inr (- 1)
   \<and> indexSpecies \<lparr>species = [''A'', ''B'', ''C''], indices = [0, 1, 2], stoichiometries = [- 1, - 1, 1 :: real]\<rparr> ''D'' = 3
   \<and> \<not> containsSpecies \<lparr>species = [''A'', ''B'', ''C''], indices = [0, 1, 2], stoichiometries = [- 1, - 1, 1 :: real]\<rparr> ''D''
   \<and> stoichiometry \<lparr>species = [''A'', ''B'', ''C''], indices = [0, 1, 2], stoichiometries = [- 1, - 1, 1 :: real]\<rparr> ''D'' = Inr 0"
  using lookup_sentinel [of "\<lparr>species = [''A'', ''B'', ''C''], indices = [0, 1, 2], stoichiometries = [- 1, - 1, 1 :: real]\<rparr>" "''B''"]
    lookup_sentinel [of "\<lparr>species = [''A'', ''B'', ''C''], indices = [0, 1, 2], stoichiometries = [- 1, - 1, 1 :: real]\<rparr>" "''D''"]
  by (simp add: indexSpecies_def numSpecies_def)

subsection \<open>The equilibrium constant\<close>

lemma foldl_add_real:
  fixes h :: "nat \<Rightarrow> real"
  shows "foldl (\<lambda>s i. s + h i) s0 is = s0 + sum_list (map h is)"
  by (induction "is" arbitrary: s0) (simp_all add: add.assoc)

lemma foldl_mult_real:
  fixes h :: "nat \<Rightarrow> real"
  shows "foldl (\<lambda>q i. q * h i) q0 is = q0 * prod_list (map h is)"
  by (induction "is" arbitrary: q0) (simp_all add: mult.assoc)

lemma foldl_add_upt:
  fixes h :: "nat \<Rightarrow> real"
  shows "foldl (\<lambda>s i. s + h i) 0 [0..<n] = (\<Sum>i<n. h i)"
  by (simp add: foldl_add_real interv_sum_list_conv_sum_set_nat atLeast0LessThan)

lemma foldl_mult_upt:
  fixes h :: "nat \<Rightarrow> real"
  shows "foldl (\<lambda>q i. q * h i) 1 [0..<n] = (\<Prod>i<n. h i)"
  by (simp add: foldl_mult_real prod.distinct_set_conv_list [symmetric] atLeast0LessThan)

lemma collect_mu_in_range:
  "\<forall>i \<in> set is. i < length sps \<Longrightarrow>
     collect_mu sps is mu = Inr (mu @ map (\<lambda>i. chemicalPotential (sps ! i)) is)"
  by (induction "is" arbitrary: mu) simp_all

lemma kappa_sum_in_range:
  "\<forall>i \<in> set is. i < length sts \<and> i < length mu \<Longrightarrow>
     kappa_sum sts mu T P is acc = Inr (foldl (\<lambda>s i. s + sts ! i * (mu ! i) T P) acc is)"
  by (induction "is" arbitrary: acc) simp_all

lemma equilibriumConstant_closure:
  fixes R :: "'a::{zero,plus,times,uminus,inverse}"
  assumes wf: "wf_Reaction reaction"
    and rng: "\<forall>k \<in> set (indices reaction). k < length (system_species multiphase)"
  shows "\<exists>K. equilibriumConstant std_exp R multiphase reaction = Inr K
           \<and> (\<forall>T P. K T P =
                 Inr (std_exp (- foldl (\<lambda>s i. s + stoichiometries reaction ! i
                                           * chemicalPotential
                                               (system_species multiphase ! (indices reaction ! i))
                                               T P)
                                  0 [0..<length (species reaction)]
                               / (R * T))))"
proof -
  let ?n = "length (species reaction)"
  let ?mu = "map (\<lambda>k. chemicalPotential (system_species multiphase ! k)) (indices reaction)"
  have n: "numSpecies reaction = ?n"
    using wf by (simp add: wf_Reaction_def numSpecies_def)
  have len: "length (indices reaction) = ?n" "length (stoichiometries reaction) = ?n"
    using wf by (simp_all add: wf_Reaction_def)
  have mu: "collect_mu (system_species multiphase) (indices reaction) [] = Inr ?mu"
    using rng by (simp add: collect_mu_in_range)
  have s: "kappa_sum (stoichiometries reaction) ?mu T P [0..<?n] 0 =
      Inr (foldl (\<lambda>s i. s + stoichiometries reaction ! i
             * chemicalPotential (system_species multiphase ! (indices reaction ! i)) T P)
            0 [0..<?n])"
    for T P
  proof -
    have "kappa_sum (stoichiometries reaction) ?mu T P [0..<?n] 0 =
        Inr (foldl (\<lambda>s i. s + stoichiometries reaction ! i * (?mu ! i) T P) 0 [0..<?n])"
      by (rule kappa_sum_in_range) (simp add: len)
    also have "foldl (\<lambda>s i. s + stoichiometries reaction ! i * (?mu ! i) T P) 0 [0..<?n] =
        foldl (\<lambda>s i. s + stoichiometries reaction ! i
             * chemicalPotential (system_species multiphase ! (indices reaction ! i)) T P)
            0 [0..<?n]"
      by (rule foldl_cong) (simp_all add: len)
    finally show ?thesis .
  qed
  show ?thesis
    by (simp add: equilibriumConstant_def Let_def mu n s)
qed

text \<open>
  C5. For every multiphase system and every reaction whose vectors run in parallel and whose
  indices lie within the species of the system, \<^verbatim>\<open>equilibriumConstant\<close> returns a function,
  and at every temperature \<open>T\<close> and pressure \<open>P\<close> this function has the value
  \<open>exp (- S / (R * T))\<close>, where \<open>S\<close> is the sum of \<open>\<nu>\<^sub>i * \<mu>\<^sub>i T P\<close> over the species of the
  reaction, \<open>\<nu>\<^sub>i\<close> their stoichiometries and \<open>\<mu>\<^sub>i\<close> their chemical potentials taken from the
  system, and \<open>R\<close> is the universal gas constant. This holds in the arithmetic of the
  program, whatever it is, with \<open>S\<close> built from zero in the order of the species; at the
  temperature zero the value is what that arithmetic makes of the division. In exact
  arithmetic \<open>S\<close> is the sum \<open>\<Sum>i. \<nu>\<^sub>i * \<mu>\<^sub>i T P\<close>, which is the second part.
\<close>

theorem equilibriumConstant_formula:
  fixes R :: "'a::{zero,plus,times,uminus,inverse}"
    and reaction_r :: "real Reaction"
    and multiphase_r :: "real Multiphase"
  shows "(wf_Reaction reaction
            \<and> (\<forall>k \<in> set (indices reaction). k < length (system_species multiphase))
          \<longrightarrow> (\<exists>K. equilibriumConstant std_exp R multiphase reaction = Inr K
                 \<and> (\<forall>T P. K T P =
                       Inr (std_exp
                         (- foldl (\<lambda>s i. s + stoichiometries reaction ! i
                                     * chemicalPotential
                                         (system_species multiphase ! (indices reaction ! i)) T P)
                              0 [0..<length (species reaction)]
                          / (R * T))))))
       \<and> foldl (\<lambda>s i. s + stoichiometries reaction_r ! i
                    * chemicalPotential
                        (system_species multiphase_r ! (indices reaction_r ! i)) Tr Pr)
             0 [0..<length (species reaction_r)]
           = (\<Sum>i<length (species reaction_r).
                 stoichiometries reaction_r ! i
                 * chemicalPotential
                     (system_species multiphase_r ! (indices reaction_r ! i)) Tr Pr)"
proof (intro conjI impI)
  assume "wf_Reaction reaction
      \<and> (\<forall>k \<in> set (indices reaction). k < length (system_species multiphase))"
  then show "\<exists>K. equilibriumConstant std_exp R multiphase reaction = Inr K
      \<and> (\<forall>T P. K T P =
            Inr (std_exp
              (- foldl (\<lambda>s i. s + stoichiometries reaction ! i
                          * chemicalPotential
                              (system_species multiphase ! (indices reaction ! i)) T P)
                   0 [0..<length (species reaction)]
               / (R * T))))"
    by (intro equilibriumConstant_closure) simp_all
next
  show "foldl (\<lambda>s i. s + stoichiometries reaction_r ! i
                    * chemicalPotential
                        (system_species multiphase_r ! (indices reaction_r ! i)) Tr Pr)
             0 [0..<length (species reaction_r)]
           = (\<Sum>i<length (species reaction_r).
                 stoichiometries reaction_r ! i
                 * chemicalPotential
                     (system_species multiphase_r ! (indices reaction_r ! i)) Tr Pr)"
    by (rule foldl_add_upt)
qed

theorem equilibriumConstant_formula_witness:
  "wf_Reaction rx
   \<and> (\<exists>K. equilibriumConstant exp 8 mpx rx = Inr K
         \<and> K 300 1 = Inr (exp (- (0 + - 1 * 1 + 1 * 5) / (8 * 300)))
         \<and> K 300 1 = Inr (exp (- 4 / (8 * 300))))"
proof -
  have wf: "wf_Reaction rx"
    by (simp add: wf_Reaction_def rx_def)
  have rng: "\<forall>k \<in> set (indices rx). k < length (system_species mpx)"
    by (simp add: rx_def mpx_def)
  have both: "(\<exists>K. equilibriumConstant exp 8 mpx rx = Inr K
        \<and> (\<forall>T P. K T P =
              Inr (exp (- foldl (\<lambda>s i. s + stoichiometries rx ! i
                                    * chemicalPotential (system_species mpx ! (indices rx ! i)) T P)
                             0 [0..<length (species rx)]
                         / (8 * T)))))
      \<and> foldl (\<lambda>s i. s + stoichiometries rx ! i
                    * chemicalPotential (system_species mpx ! (indices rx ! i)) 300 1)
             0 [0..<length (species rx)]
          = (\<Sum>i<length (species rx).
                stoichiometries rx ! i
                * chemicalPotential (system_species mpx ! (indices rx ! i)) 300 1)"
    using equilibriumConstant_formula
      [where reaction = rx and multiphase = mpx and std_exp = exp and R = 8
        and reaction_r = rx and multiphase_r = mpx and Tr = 300 and Pr = 1]
      wf rng
    by simp
  then obtain K where eq: "equilibriumConstant exp 8 mpx rx = Inr K"
    and ordered: "\<forall>T P. K T P =
              Inr (exp (- foldl (\<lambda>s i. s + stoichiometries rx ! i
                                    * chemicalPotential (system_species mpx ! (indices rx ! i)) T P)
                             0 [0..<length (species rx)]
                         / (8 * T)))"
    and exact: "foldl (\<lambda>s i. s + stoichiometries rx ! i
                    * chemicalPotential (system_species mpx ! (indices rx ! i)) 300 1)
             0 [0..<length (species rx)]
          = (\<Sum>i<length (species rx).
                stoichiometries rx ! i
                * chemicalPotential (system_species mpx ! (indices rx ! i)) 300 1)"
    by auto
  from ordered have k: "K 300 1 = Inr (exp (- (0 + - 1 * 1 + 1 * 5) / (8 * 300)))"
    by (simp add: rx_def mpx_def)
  from exact have "foldl (\<lambda>s i. s + stoichiometries rx ! i
                    * chemicalPotential (system_species mpx ! (indices rx ! i)) 300 1)
             0 [0..<length (species rx)] = (4::real)"
    by (simp add: rx_def mpx_def lessThan_Suc)
  with ordered have "K 300 1 = Inr (exp (- 4 / (8 * 300)))"
    by simp
  with k wf eq show ?thesis by simp
qed

subsection \<open>The reaction quotient\<close>

lemma quotient_val_in_range:
  "\<forall>i \<in> set is. i < length (stoichiometries reaction) \<and> i < length (indices reaction)
       \<and> indices reaction ! i < length (val a) \<Longrightarrow>
     quotient_val std_pow reaction a is Qval =
       Inr (foldl (\<lambda>q i. q * std_pow (val a ! (indices reaction ! i))
                                  (stoichiometries reaction ! i)) Qval is)"
  by (induction "is" arbitrary: Qval) simp_all

lemma add_scaled_same_length:
  "length row = length u \<Longrightarrow>
     add_scaled u c row = Inr (map (\<lambda>j. u ! j + c * row ! j) [0..<length u])"
  by (auto simp: add_scaled_def intro: nth_equalityI)

lemma quotient_grad_in_range:
  "\<forall>i \<in> set is. i < length (stoichiometries reaction) \<and> i < length (indices reaction)
       \<and> indices reaction ! i < length (val a)
       \<and> indices reaction ! i < length (grad a)
       \<and> length (grad a ! (indices reaction ! i)) = length Qgrad \<Longrightarrow>
     quotient_grad reaction a Qval is Qgrad =
       Inr (map (\<lambda>j. foldl (\<lambda>x i. x + Qval * stoichiometries reaction ! i
                                        / val a ! (indices reaction ! i)
                                        * grad a ! (indices reaction ! i) ! j)
                         (Qgrad ! j) is)
              [0..<length Qgrad])"
proof (induction "is" arbitrary: Qgrad)
  case Nil
  show ?case by (auto intro: nth_equalityI)
next
  case (Cons i "is")
  let ?k = "indices reaction ! i"
  let ?c = "Qval * stoichiometries reaction ! i / val a ! ?k"
  let ?g = "map (\<lambda>j. Qgrad ! j + ?c * grad a ! ?k ! j) [0..<length Qgrad]"
  let ?step = "\<lambda>j x i. x + Qval * stoichiometries reaction ! i
                          / val a ! (indices reaction ! i)
                          * grad a ! (indices reaction ! i) ! j"
  have step: "quotient_grad reaction a Qval (i # is) Qgrad = quotient_grad reaction a Qval is ?g"
    using Cons.prems by (simp add: add_scaled_same_length)
  have "quotient_grad reaction a Qval is ?g =
      Inr (map (\<lambda>j. foldl (?step j) (?g ! j) is) [0..<length ?g])"
    by (rule Cons.IH) (use Cons.prems in simp)
  also have "map (\<lambda>j. foldl (?step j) (?g ! j) is) [0..<length ?g] =
      map (\<lambda>j. foldl (?step j) (Qgrad ! j) (i # is)) [0..<length Qgrad]"
    by simp
  finally show ?case using step by simp
qed

lemma reactionQuotient_folds:
  fixes reaction :: "'a::{zero,one,plus,times,inverse} Reaction"
  assumes wf: "wf_Reaction reaction"
    and size: "length (val a) < 2 ^ 32"
    and rng: "\<forall>k \<in> set (indices reaction).
                k < length (val a) \<and> k < length (grad a) \<and> length (grad a ! k) = length (val a)"
  shows "reactionQuotient std_pow reaction a =
           Inr \<lparr>val = foldl (\<lambda>q i. q * std_pow (val a ! (indices reaction ! i))
                                        (stoichiometries reaction ! i))
                          1 [0..<length (species reaction)],
                grad = map (\<lambda>j. foldl (\<lambda>x i. x
                                    + foldl (\<lambda>q i. q * std_pow (val a ! (indices reaction ! i))
                                                         (stoichiometries reaction ! i))
                                        1 [0..<length (species reaction)]
                                      * stoichiometries reaction ! i
                                      / val a ! (indices reaction ! i)
                                      * grad a ! (indices reaction ! i) ! j)
                                  0 [0..<length (species reaction)])
                         [0..<length (val a)]\<rparr>"
proof -
  let ?n = "length (species reaction)"
  let ?Q = "foldl (\<lambda>q i. q * std_pow (val a ! (indices reaction ! i))
                            (stoichiometries reaction ! i)) 1 [0..<?n]"
  have n: "numSpecies reaction = ?n"
    using wf by (simp add: wf_Reaction_def numSpecies_def)
  have len: "length (indices reaction) = ?n" "length (stoichiometries reaction) = ?n"
    using wf by (simp_all add: wf_Reaction_def)
  have k: "indices reaction ! i < length (val a) \<and> indices reaction ! i < length (grad a)
      \<and> length (grad a ! (indices reaction ! i)) = length (val a)" if "i < ?n" for i
    using rng that len(1) by (metis nth_mem)
  have v: "quotient_val std_pow reaction a [0..<?n] 1 = Inr ?Q"
    by (rule quotient_val_in_range) (use k len in simp)
  have "quotient_grad reaction a ?Q [0..<?n] (zeros (length (val a))) =
      Inr (map (\<lambda>j. foldl (\<lambda>x i. x + ?Q * stoichiometries reaction ! i
                                        / val a ! (indices reaction ! i)
                                        * grad a ! (indices reaction ! i) ! j)
                         (zeros (length (val a)) ! j) [0..<?n])
              [0..<length (zeros (length (val a)) :: 'a list)])"
    by (rule quotient_grad_in_range) (use k len in \<open>simp add: zeros_def\<close>)
  also have "\<dots> = Inr (map (\<lambda>j. foldl (\<lambda>x i. x + ?Q * stoichiometries reaction ! i
                                        / val a ! (indices reaction ! i)
                                        * grad a ! (indices reaction ! i) ! j)
                         0 [0..<?n])
              [0..<length (val a)])"
    by (simp add: zeros_def)
  finally have g: "quotient_grad reaction a ?Q [0..<?n] (zeros (length (val a))) =
      Inr (map (\<lambda>j. foldl (\<lambda>x i. x + ?Q * stoichiometries reaction ! i
                                        / val a ! (indices reaction ! i)
                                        * grad a ! (indices reaction ! i) ! j)
                         0 [0..<?n])
              [0..<length (val a)])" .
  show ?thesis
    using size by (simp add: reactionQuotient_def Let_def n v g)
qed

lemma foldl_scaled_sum:
  fixes Q :: real
  shows "foldl (\<lambda>x i. x + Q * v i / a i * y i) 0 [0..<n] = Q * (\<Sum>i<n. v i / a i * y i)"
proof -
  have "foldl (\<lambda>x i. x + Q * v i / a i * y i) 0 [0..<n] = (\<Sum>i<n. Q * v i / a i * y i)"
    by (rule foldl_add_upt)
  also have "\<dots> = Q * (\<Sum>i<n. v i / a i * y i)"
    by (simp add: sum_distrib_left mult.assoc)
  finally show ?thesis .
qed

text \<open>
  C2. For every reaction whose vectors run in parallel and every activity vector that covers
  the indices of the reaction, with a row of derivatives for each of them, \<^verbatim>\<open>reactionQuotient\<close>
  returns \<open>Q\<close> whose value is the product, over the species of the reaction only, of the
  activity \<open>a\<^sub>i\<close> raised to the stoichiometry \<open>\<nu>\<^sub>i\<close>, and whose gradient is made, over the
  species of the reaction only, of that value, \<open>\<nu>\<^sub>i / a\<^sub>i\<close> and the row of derivatives of \<open>a\<^sub>i\<close>.
  This holds in the arithmetic of the program, whatever it is: the product is built from
  one in the order of the species, and each component of the gradient is built from zero
  by adding \<open>Q * \<nu>\<^sub>i / a\<^sub>i\<close> times the derivative. In exact arithmetic the product built so is
  \<open>\<Prod>i. a\<^sub>i\<close> to the \<open>\<nu>\<^sub>i\<close> and, for activities other than zero, the component built so is \<open>Q\<close>
  times \<open>\<Sum>i. \<nu>\<^sub>i / a\<^sub>i\<close> times the derivative: the second and third part. The witness is the
  case of the specification in exact arithmetic: for the stoichiometries \<open>-1, -1, 1\<close> and the
  activities \<open>2, 3, 1\<close> the value is \<open>1/6\<close> and the derivative with respect to the activity of
  \<open>A\<close> is \<open>-(1/6)/2\<close>, also when the system has a further species, of activity zero, outside
  the reaction.
\<close>

theorem reactionQuotient_formula:
  fixes reaction :: "'a::{zero,one,plus,times,inverse} Reaction"
    and reaction_r :: "real Reaction"
    and a_r :: "real VectorResult"
    and pow_r :: "real \<Rightarrow> real \<Rightarrow> real"
    and Qr :: real
  shows "(wf_Reaction reaction \<and> length (val a) < 2 ^ 32
            \<and> (\<forall>k \<in> set (indices reaction).
                  k < length (val a) \<and> k < length (grad a)
                  \<and> length (grad a ! k) = length (val a))
          \<longrightarrow> reactionQuotient std_pow reaction a =
                Inr \<lparr>val = foldl (\<lambda>q i. q * std_pow (val a ! (indices reaction ! i))
                                             (stoichiometries reaction ! i))
                               1 [0..<length (species reaction)],
                     grad = map (\<lambda>j. foldl (\<lambda>x i. x
                                         + foldl (\<lambda>q i. q * std_pow (val a ! (indices reaction ! i))
                                                              (stoichiometries reaction ! i))
                                             1 [0..<length (species reaction)]
                                           * stoichiometries reaction ! i
                                           / val a ! (indices reaction ! i)
                                           * grad a ! (indices reaction ! i) ! j)
                                       0 [0..<length (species reaction)])
                              [0..<length (val a)]\<rparr>)
       \<and> foldl (\<lambda>q i. q * pow_r (val a_r ! (indices reaction_r ! i))
                              (stoichiometries reaction_r ! i))
             1 [0..<length (species reaction_r)]
           = (\<Prod>i<length (species reaction_r).
                 pow_r (val a_r ! (indices reaction_r ! i)) (stoichiometries reaction_r ! i))
       \<and> ((\<forall>i < length (species reaction_r). val a_r ! (indices reaction_r ! i) \<noteq> 0)
          \<longrightarrow> foldl (\<lambda>x i. x + Qr * stoichiometries reaction_r ! i
                                 / val a_r ! (indices reaction_r ! i)
                                 * grad a_r ! (indices reaction_r ! i) ! j)
                  0 [0..<length (species reaction_r)]
                = Qr * (\<Sum>i<length (species reaction_r).
                          stoichiometries reaction_r ! i / val a_r ! (indices reaction_r ! i)
                          * grad a_r ! (indices reaction_r ! i) ! j))"
proof (intro conjI impI)
  assume "wf_Reaction reaction \<and> length (val a) < 2 ^ 32
      \<and> (\<forall>k \<in> set (indices reaction).
            k < length (val a) \<and> k < length (grad a) \<and> length (grad a ! k) = length (val a))"
  then show "reactionQuotient std_pow reaction a =
      Inr \<lparr>val = foldl (\<lambda>q i. q * std_pow (val a ! (indices reaction ! i))
                                   (stoichiometries reaction ! i))
                     1 [0..<length (species reaction)],
           grad = map (\<lambda>j. foldl (\<lambda>x i. x
                               + foldl (\<lambda>q i. q * std_pow (val a ! (indices reaction ! i))
                                                    (stoichiometries reaction ! i))
                                   1 [0..<length (species reaction)]
                                 * stoichiometries reaction ! i
                                 / val a ! (indices reaction ! i)
                                 * grad a ! (indices reaction ! i) ! j)
                             0 [0..<length (species reaction)])
                    [0..<length (val a)]\<rparr>"
    by (intro reactionQuotient_folds) simp_all
next
  show "foldl (\<lambda>q i. q * pow_r (val a_r ! (indices reaction_r ! i))
                              (stoichiometries reaction_r ! i))
             1 [0..<length (species reaction_r)]
           = (\<Prod>i<length (species reaction_r).
                 pow_r (val a_r ! (indices reaction_r ! i)) (stoichiometries reaction_r ! i))"
    by (rule foldl_mult_upt)
next
  show "foldl (\<lambda>x i. x + Qr * stoichiometries reaction_r ! i
                                 / val a_r ! (indices reaction_r ! i)
                                 * grad a_r ! (indices reaction_r ! i) ! j)
                  0 [0..<length (species reaction_r)]
                = Qr * (\<Sum>i<length (species reaction_r).
                          stoichiometries reaction_r ! i / val a_r ! (indices reaction_r ! i)
                          * grad a_r ! (indices reaction_r ! i) ! j)"
    by (rule foldl_scaled_sum)
qed

lemma pow_value_examples:
  "pow_value 2 (- 1) = 1 / 2" "pow_value 3 (- 1) = 1 / 3" "pow_value 1 1 = 1"
  by (simp_all add: pow_value_def powr_minus_divide)

theorem reactionQuotient_formula_witness:
  "reactionQuotient pow_value abc_reaction abc_activities =
     Inr \<lparr>val = 1 / 6, grad = [- (1 / 6) / 2, - (1 / 6) / 3, 1 / 6]\<rparr>
   \<and> reactionQuotient pow_value abc_reaction_in_water abc_activities_in_water =
     Inr \<lparr>val = 1 / 6, grad = [- (1 / 6) / 2, 0, - (1 / 6) / 3, 1 / 6]\<rparr>
   \<and> foldl (\<lambda>q i. q * pow_value (val abc_activities ! (indices abc_reaction ! i))
                          (stoichiometries abc_reaction ! i))
         1 [0..<length (species abc_reaction)] = 1 / 6
   \<and> foldl (\<lambda>x i. x + 1 / 6 * stoichiometries abc_reaction ! i
                          / val abc_activities ! (indices abc_reaction ! i)
                          * grad abc_activities ! (indices abc_reaction ! i) ! 0)
         0 [0..<length (species abc_reaction)] = - (1 / 6) / 2"
proof -
  have wf: "wf_Reaction abc_reaction" "wf_Reaction abc_reaction_in_water"
    by (simp_all add: wf_Reaction_def abc_reaction_def abc_reaction_in_water_def)
  have size: "length (val abc_activities) < 2 ^ 32" "length (val abc_activities_in_water) < 2 ^ 32"
    by (simp_all add: abc_activities_def abc_activities_in_water_def)
  have rng: "\<forall>k \<in> set (indices abc_reaction).
      k < length (val abc_activities) \<and> k < length (grad abc_activities)
      \<and> length (grad abc_activities ! k) = length (val abc_activities)"
    by (simp add: abc_activities_def abc_reaction_def)
  have rng_w: "\<forall>k \<in> set (indices abc_reaction_in_water).
      k < length (val abc_activities_in_water) \<and> k < length (grad abc_activities_in_water)
      \<and> length (grad abc_activities_in_water ! k) = length (val abc_activities_in_water)"
    by (simp add: abc_activities_in_water_def abc_reaction_in_water_def)
  have nz: "\<forall>i < length (species abc_reaction). val abc_activities ! (indices abc_reaction ! i) \<noteq> 0"
    by (simp add: abc_activities_def abc_reaction_def All_less_Suc)
  note abc = reactionQuotient_formula
      [where reaction = abc_reaction and a = abc_activities and std_pow = pow_value
        and reaction_r = abc_reaction and a_r = abc_activities and pow_r = pow_value
        and Qr = "1 / 6" and j = 0]
  note abc_w = reactionQuotient_formula
      [where reaction = abc_reaction_in_water and a = abc_activities_in_water
        and std_pow = pow_value
        and reaction_r = abc_reaction and a_r = abc_activities and pow_r = pow_value
        and Qr = "1 / 6" and j = 0]
  have "reactionQuotient pow_value abc_reaction abc_activities =
      Inr \<lparr>val = 1 / 6, grad = [- (1 / 6) / 2, - (1 / 6) / 3, 1 / 6]\<rparr>"
    using abc wf(1) size(1) rng
    by (simp add: abc_reaction_def abc_activities_def pow_value_examples)
  moreover have "reactionQuotient pow_value abc_reaction_in_water abc_activities_in_water =
      Inr \<lparr>val = 1 / 6, grad = [- (1 / 6) / 2, 0, - (1 / 6) / 3, 1 / 6]\<rparr>"
    using abc_w wf(2) size(2) rng_w
    by (simp add: abc_reaction_in_water_def abc_activities_in_water_def pow_value_examples)
  moreover have "foldl (\<lambda>q i. q * pow_value (val abc_activities ! (indices abc_reaction ! i))
                          (stoichiometries abc_reaction ! i))
         1 [0..<length (species abc_reaction)] = 1 / 6"
    using abc by (simp add: abc_reaction_def abc_activities_def pow_value_examples lessThan_Suc)
  moreover have "foldl (\<lambda>x i. x + 1 / 6 * stoichiometries abc_reaction ! i
                          / val abc_activities ! (indices abc_reaction ! i)
                          * grad abc_activities ! (indices abc_reaction ! i) ! 0)
         0 [0..<length (species abc_reaction)] = - (1 / 6) / 2"
    using abc nz by (simp add: abc_reaction_def abc_activities_def lessThan_Suc)
  ultimately show ?thesis by simp
qed

subsection \<open>The constructor of a mineral mechanism\<close>

lemma split_words_no_delims:
  "\<forall>c \<in> set str. c \<notin> set delims \<Longrightarrow>
     split_words delims word str = (if word @ str = [] then [] else [word @ str])"
  by (induction str arbitrary: word) simp_all

lemma split_single_word:
  "str \<noteq> [] \<Longrightarrow> \<forall>c \<in> set str. c \<notin> set delims \<Longrightarrow> split str delims = [str]"
  by (simp add: split_def split_words_no_delims)

lemma setOptions_append:
  "setOptions X (pre @ rest) this = bindr (setOptions X pre this) (setOptions X rest)"
proof (induction pre arbitrary: this)
  case Nil
  show ?case by simp
next
  case (Cons option pre)
  show ?case
    by (cases "setOption X this option") (simp_all add: Cons.IH)
qed

lemma setOptions_failing_option:
  "setOptions X pre this = Inr this' \<Longrightarrow> setOption X this' option = Inl e \<Longrightarrow>
     setOptions X (pre @ option # post) this = Inl e"
  by (simp add: setOptions_append)

lemma setOption_two_words:
  assumes "\<not> (contains option ''a['' \<or> contains option ''activity[''
              \<or> contains option ''p['' \<or> contains option ''pressure['')"
    and "split option ''= '' = [quantity, word]"
    and "tofloat X word = Inr value"
    and "quantity = ''logk'' \<or> quantity = ''Ea''"
  shows "setOption X this option = Inl (missingUnitError quantity)"
  using assms by (auto simp: setOption_def)

lemma checkRateConstantUnit_fails:
  "\<not> units_convertible X unit ''mol/(m2*s)'' \<Longrightarrow>
     setRateConstant X this value unit =
       Inl (Raised ''Cannot set the kinetic rate constant of the mineral reaction''
              ''The provided unit cannot be converted to mol/(m2*s)'')"
  by (simp add: setRateConstant_def checkRateConstantUnit_def)

lemma checkActivationEnergyUnit_fails:
  "\<not> units_convertible X unit ''kJ/mol'' \<Longrightarrow>
     setActivationEnergy X this value unit =
       Inl (Raised ''Cannot set the Arrhenius activation energy of the mineral reaction''
              ''The provided unit cannot be converted to kJ/mol'')"
  by (simp add: setActivationEnergy_def checkActivationEnergyUnit_def)

lemma decimal_examples:
  "decimal ''-6'' = - 6" "decimal ''50'' = 50" "decimal ''1'' = 1" "decimal ''2'' = 2"
  by (simp_all add: decimal_def unsigned_decimal_def digit_def)

lemma pow_ten_minus_six: "pow 10 (- 6) = Inr (1 / 10 ^ 6)"
proof -
  have v: "pow_value 10 (- 6) = 1 / 10 ^ 6"
    by (simp add: pow_value_def powr_minus_divide)
  have hi: "\<not> largest_double < 1 / 10 ^ 6"
    by (simp add: largest_double_def)
  have lo: "\<not> (1 / 10 ^ 6 < smallest_normal_double)"
    by (simp add: smallest_normal_double_def)
  show ?thesis
    using hi lo by (simp add: pow_def pow_defined_def v)
qed

text \<open>
  C6. The claim fails on the code for an option that is the key \<^verbatim>\<open>logk\<close> or \<^verbatim>\<open>Ea\<close> alone, with
  or without the \<^verbatim>\<open>=\<close>: such an option has no unit, yet no error about the missing unit is
  raised. The option is one word; the constructor reads \<^verbatim>\<open>words[1]\<close>, past the end of the
  vector, before it reaches the test \<^verbatim>\<open>words.size() < 3\<close> that raises the error. For an
  option of a key and a value the error is raised (\<open>setOption_two_words\<close>), and a unit that
  cannot be converted is refused (\<open>checkRateConstantUnit_fails\<close>,
  \<open>checkActivationEnergyUnit_fails\<close>).
\<close>

theorem key_without_value_reads_out_of_bounds:
  "MineralMechanism_ctor X this ''Ea'' = Inl OutOfBounds
   \<and> MineralMechanism_ctor X this ''logk'' = Inl OutOfBounds
   \<and> MineralMechanism_ctor X this ''Ea='' = Inl OutOfBounds
   \<and> MineralMechanism_ctor X this ''logk='' = Inl OutOfBounds
   \<and> MineralMechanism_ctor X this ''Ea'' \<noteq> Inl (missingUnitError ''Ea'')
   \<and> MineralMechanism_ctor X this ''logk'' \<noteq> Inl (missingUnitError ''logk'')"
  by (simp add: MineralMechanism_ctor_def split_def setOption_def missingUnitError_def)

text \<open>
  C10. The constructor is not total. An option that is not a catalyst and has neither
  \<^verbatim>\<open>=\<close> nor a space is a single word: it passes the guard, which rejects no words and more
  than three words only, and the constructor then reads \<^verbatim>\<open>words[1]\<close> of a vector of one
  element, before any error is raised. This holds for the option alone and for the option
  among others in a mechanism string; the witness has the option \<^verbatim>\<open>foo\<close>.
\<close>

theorem single_word_option_reads_out_of_bounds:
  assumes nonempty: "option \<noteq> []"
    and one_word: "\<forall>c \<in> set option. c \<noteq> CHR ''='' \<and> c \<noteq> CHR '' ''"
    and no_catalyst: "\<not> (contains option ''a['' \<or> contains option ''activity[''
              \<or> contains option ''p['' \<or> contains option ''pressure['')"
  shows "split option ''= '' = [option]
       \<and> setOption X this option = Inl OutOfBounds
       \<and> (split mechanism '','' = pre @ option # post \<and> setOptions X pre this0 = Inr this
            \<longrightarrow> MineralMechanism_ctor X this0 mechanism = Inl OutOfBounds)
       \<and> (CHR '','' \<notin> set option \<longrightarrow> MineralMechanism_ctor X this option = Inl OutOfBounds)"
proof -
  have words: "split option ''= '' = [option]"
    using nonempty one_word by (intro split_single_word) auto
  have body: "setOption X this' option = Inl OutOfBounds" for this'
    using no_catalyst by (simp add: setOption_def words)
  have among: "MineralMechanism_ctor X this0 mechanism = Inl OutOfBounds"
    if "split mechanism '','' = pre @ option # post" "setOptions X pre this0 = Inr this"
    using that body by (simp add: MineralMechanism_ctor_def setOptions_failing_option)
  have alone: "MineralMechanism_ctor X this option = Inl OutOfBounds"
    if "CHR '','' \<notin> set option"
  proof -
    have "split option '','' = [option]"
      using nonempty that by (intro split_single_word) auto
    then show ?thesis
      using body by (simp add: MineralMechanism_ctor_def)
  qed
  show ?thesis
    using words body among alone by blast
qed

theorem single_word_option_reads_out_of_bounds_witness:
  "split ''foo'' ''= '' = [''foo'']
   \<and> setOption plain_externals plain_mechanism ''foo'' = Inl OutOfBounds
   \<and> MineralMechanism_ctor plain_externals plain_mechanism ''foo'' = Inl OutOfBounds
   \<and> MineralMechanism_ctor plain_externals plain_mechanism ''p=1,foo,q=2'' = Inl OutOfBounds"
proof -
  have p1: "setOptions plain_externals [''p=1''] plain_mechanism = Inr (plain_mechanism\<lparr>p := 1\<rparr>)"
    by (simp add: setOption_def split_def plain_externals_def decimal_examples)
  have options: "split ''p=1,foo,q=2'' '','' = [''p=1''] @ ''foo'' # [''q=2'']"
    by (simp add: split_def)
  have "MineralMechanism_ctor plain_externals plain_mechanism ''p=1,foo,q=2'' = Inl OutOfBounds"
    using single_word_option_reads_out_of_bounds
      [of "''foo''" plain_externals "plain_mechanism\<lparr>p := 1\<rparr>" "''p=1,foo,q=2''" "[''p=1'']"
        "[''q=2'']" plain_mechanism]
      p1 options
    by simp
  moreover have "split ''foo'' ''= '' = [''foo'']
      \<and> setOption plain_externals plain_mechanism ''foo'' = Inl OutOfBounds
      \<and> MineralMechanism_ctor plain_externals plain_mechanism ''foo'' = Inl OutOfBounds"
    using single_word_option_reads_out_of_bounds [of "''foo''" plain_externals plain_mechanism]
    by simp
  ultimately show ?thesis by simp
qed

text \<open>
  C1, as stated, fails: the string \<^verbatim>\<open>logk=-6 Ea=50 kJ/mol p=1 q=2\<close> has no comma, so it is
  one option, of nine words, and the constructor rejects it as an unknown option.
\<close>

theorem space_separated_mechanism_rejected:
  "MineralMechanism_ctor plain_externals plain_mechanism ''logk=-6 Ea=50 kJ/mol p=1 q=2''
     = Inl (unknownOptionError ''logk=-6 Ea=50 kJ/mol p=1 q=2'')"
  by (simp add: MineralMechanism_ctor_def split_def setOption_def)

text \<open>
  C1, amended. The constructor rejects \<^verbatim>\<open>logk=-6 Ea=50 kJ/mol p=1 q=2\<close> with the error of
  \<^verbatim>\<open>unknownOptionError\<close>, whatever the functions it calls do. With the options separated by
  commas and the unit that \<^verbatim>\<open>logk\<close> requires, \<^verbatim>\<open>logk=-6 mol/(m2*s),Ea=50 kJ/mol,p=1,q=2\<close>, it
  succeeds and sets the rate constant to \<open>10\<^sup>-\<^sup>6\<close>, the activation energy to 50, \<open>p\<close> to 1 and
  \<open>q\<close> to 2, when \<^verbatim>\<open>tofloat\<close> reads the four numerals as their values and the two units
  convert to themselves by the identity.
\<close>

theorem comma_separated_mechanism_parses:
  "MineralMechanism_ctor X this ''logk=-6 Ea=50 kJ/mol p=1 q=2''
     = Inl (unknownOptionError ''logk=-6 Ea=50 kJ/mol p=1 q=2'')
   \<and> (tofloat X ''-6'' = Inr (- 6) \<and> tofloat X ''50'' = Inr 50
        \<and> tofloat X ''1'' = Inr 1 \<and> tofloat X ''2'' = Inr 2
        \<and> units_convertible X ''mol/(m2*s)'' ''mol/(m2*s)''
        \<and> units_convertible X ''kJ/mol'' ''kJ/mol''
        \<and> (\<forall>v. units_convert X v ''mol/(m2*s)'' ''mol/(m2*s)'' = v)
        \<and> (\<forall>v. units_convert X v ''kJ/mol'' ''kJ/mol'' = v)
      \<longrightarrow> MineralMechanism_ctor X this ''logk=-6 mol/(m2*s),Ea=50 kJ/mol,p=1,q=2''
            = Inr (this\<lparr>kappa := 1 / 10 ^ 6, Ea := 50, p := 1, q := 2\<rparr>))"
proof -
  have rejected: "MineralMechanism_ctor X this ''logk=-6 Ea=50 kJ/mol p=1 q=2''
     = Inl (unknownOptionError ''logk=-6 Ea=50 kJ/mol p=1 q=2'')"
    by (simp add: MineralMechanism_ctor_def split_def setOption_def)
  have parsed: "MineralMechanism_ctor X this ''logk=-6 mol/(m2*s),Ea=50 kJ/mol,p=1,q=2''
            = Inr (this\<lparr>kappa := 1 / 10 ^ 6, Ea := 50, p := 1, q := 2\<rparr>)"
    if "tofloat X ''-6'' = Inr (- 6)" "tofloat X ''50'' = Inr 50"
      "tofloat X ''1'' = Inr 1" "tofloat X ''2'' = Inr 2"
      "units_convertible X ''mol/(m2*s)'' ''mol/(m2*s)''"
      "units_convertible X ''kJ/mol'' ''kJ/mol''"
      "\<forall>v. units_convert X v ''mol/(m2*s)'' ''mol/(m2*s)'' = v"
      "\<forall>v. units_convert X v ''kJ/mol'' ''kJ/mol'' = v"
    using that
    by (simp add: MineralMechanism_ctor_def split_def setOption_def pow_ten_minus_six
        setRateConstant_def checkRateConstantUnit_def
        setActivationEnergy_def checkActivationEnergyUnit_def)
  show ?thesis
    using rejected parsed by blast
qed

theorem comma_separated_mechanism_parses_witness:
  "MineralMechanism_ctor plain_externals plain_mechanism ''logk=-6 mol/(m2*s),Ea=50 kJ/mol,p=1,q=2''
     = Inr \<lparr>kappa = 1 / 10 ^ 6, Ea = 50, p = 1, q = 2, catalysts = []\<rparr>"
  using comma_separated_mechanism_parses [of plain_externals plain_mechanism]
  by (simp add: plain_externals_def decimal_examples plain_mechanism_def)

subsection \<open>The classes of an aqueous mixture\<close>

lemma length_filter_sign:
  fixes f :: "'a \<Rightarrow> real"
  shows "length (filter (\<lambda>i. f i \<noteq> 0) xs) =
           length (filter (\<lambda>i. 0 < f i) xs) + length (filter (\<lambda>i. f i < 0) xs)"
  by (induction xs) auto

text \<open>
  C8. For every mixture constructed from fewer than \<open>2\<^sup>3\<^sup>2\<close> species, the range of the
  counts, the number of neutral species and the number of charged species add up to the
  number of species, and the number of charged species is the number of cations plus the
  number of anions; the indices of the neutral and of the charged species partition the
  positions of the species, those of the cations and of the anions partition the indices of
  the charged species, and no index occurs twice.
\<close>

theorem mixture_partition:
  assumes "length sps < 2 ^ 32"
  shows "numNeutralSpecies (AqueousMixture_ctor sps) + numChargedSpecies (AqueousMixture_ctor sps)
           = length sps
       \<and> numChargedSpecies (AqueousMixture_ctor sps)
           = length (indicesCations (AqueousMixture_ctor sps))
             + length (indicesAnions (AqueousMixture_ctor sps))
       \<and> set (indicesNeutralSpecies (AqueousMixture_ctor sps))
           \<union> set (indicesChargedSpecies (AqueousMixture_ctor sps)) = {..<length sps}
       \<and> set (indicesNeutralSpecies (AqueousMixture_ctor sps))
           \<inter> set (indicesChargedSpecies (AqueousMixture_ctor sps)) = {}
       \<and> set (indicesCations (AqueousMixture_ctor sps))
           \<union> set (indicesAnions (AqueousMixture_ctor sps))
           = set (indicesChargedSpecies (AqueousMixture_ctor sps))
       \<and> set (indicesCations (AqueousMixture_ctor sps))
           \<inter> set (indicesAnions (AqueousMixture_ctor sps)) = {}
       \<and> distinct (indicesNeutralSpecies (AqueousMixture_ctor sps))
       \<and> distinct (indicesChargedSpecies (AqueousMixture_ctor sps))
       \<and> distinct (indicesCations (AqueousMixture_ctor sps))
       \<and> distinct (indicesAnions (AqueousMixture_ctor sps))"
proof -
  let ?is = "[0..<length sps]"
  let ?c = "\<lambda>i. charge (sps ! i)"
  have total: "length (filter (\<lambda>i. ?c i = 0) ?is) + length (filter (\<lambda>i. ?c i \<noteq> 0) ?is)
      = length sps"
    using sum_length_filter_compl [of "\<lambda>i. ?c i = 0" ?is] by simp
  then have small: "length (filter (\<lambda>i. ?c i = 0) ?is) < 2 ^ 32"
    "length (filter (\<lambda>i. ?c i \<noteq> 0) ?is) < 2 ^ 32"
    using assms by linarith+
  have counts: "numNeutralSpecies (AqueousMixture_ctor sps)
        + numChargedSpecies (AqueousMixture_ctor sps) = length sps"
    using total small
    by (simp add: numNeutralSpecies_def numChargedSpecies_def AqueousMixture_ctor_def)
  have ions: "numChargedSpecies (AqueousMixture_ctor sps)
      = length (indicesCations (AqueousMixture_ctor sps))
        + length (indicesAnions (AqueousMixture_ctor sps))"
    using small(2) length_filter_sign [of ?c ?is]
    by (simp add: numChargedSpecies_def indicesCations_def indicesAnions_def
        AqueousMixture_ctor_def)
  have sets: "set (indicesNeutralSpecies (AqueousMixture_ctor sps))
           \<union> set (indicesChargedSpecies (AqueousMixture_ctor sps)) = {..<length sps}"
    "set (indicesNeutralSpecies (AqueousMixture_ctor sps))
           \<inter> set (indicesChargedSpecies (AqueousMixture_ctor sps)) = {}"
    "set (indicesCations (AqueousMixture_ctor sps))
           \<union> set (indicesAnions (AqueousMixture_ctor sps))
           = set (indicesChargedSpecies (AqueousMixture_ctor sps))"
    "set (indicesCations (AqueousMixture_ctor sps))
           \<inter> set (indicesAnions (AqueousMixture_ctor sps)) = {}"
    by (auto simp: indicesNeutralSpecies_def indicesChargedSpecies_def indicesCations_def
        indicesAnions_def AqueousMixture_ctor_def)
  have dist: "distinct (indicesNeutralSpecies (AqueousMixture_ctor sps))"
    "distinct (indicesChargedSpecies (AqueousMixture_ctor sps))"
    "distinct (indicesCations (AqueousMixture_ctor sps))"
    "distinct (indicesAnions (AqueousMixture_ctor sps))"
    by (simp_all add: indicesNeutralSpecies_def indicesChargedSpecies_def indicesCations_def
        indicesAnions_def AqueousMixture_ctor_def)
  show ?thesis
    using counts ions sets dist by simp
qed

theorem mixture_partition_witness:
  "numNeutralSpecies sample_mixture = 2 \<and> numChargedSpecies sample_mixture = 3
   \<and> numNeutralSpecies sample_mixture + numChargedSpecies sample_mixture = 5
   \<and> indicesNeutralSpecies sample_mixture = [0, 3]
   \<and> indicesChargedSpecies sample_mixture = [1, 2, 4]
   \<and> indicesCations sample_mixture = [1, 4]
   \<and> indicesAnions sample_mixture = [2]
   \<and> numChargedSpecies sample_mixture
        = length (indicesCations sample_mixture) + length (indicesAnions sample_mixture)"
proof -
  have idx: "indicesNeutralSpecies sample_mixture = [0, 3]"
    "indicesChargedSpecies sample_mixture = [1, 2, 4]"
    "indicesCations sample_mixture = [1, 4]"
    "indicesAnions sample_mixture = [2]"
    by (simp_all add: sample_mixture_def AqueousMixture_ctor_def indicesNeutralSpecies_def
        indicesChargedSpecies_def indicesCations_def indicesAnions_def upt_conv_Cons)
  have n: "numNeutralSpecies sample_mixture = 2" "numChargedSpecies sample_mixture = 3"
    using idx
    by (simp_all add: numNeutralSpecies_def numChargedSpecies_def indicesNeutralSpecies_def
        indicesChargedSpecies_def to_unsigned_def)
  show ?thesis
    using mixture_partition
      [of "[\<lparr>charge = 0\<rparr>, \<lparr>charge = 1\<rparr>, \<lparr>charge = - 1\<rparr>, \<lparr>charge = 0\<rparr>, \<lparr>charge = 2\<rparr>]"]
      idx n
    by (simp add: sample_mixture_def)
qed

end
